theory Spec2Isabelle
  imports Main
begin

section \<open>Python strings\<close>

text \<open>
  A Python \<open>str\<close> is a sequence of Unicode code points, so it is modelled as a list of
  natural numbers.  The source's literals are ASCII except for four localized phrases,
  which are written out as their code points.  \<open>u\<close> turns an ASCII literal into such a
  list; a backslash is written as the code point 92.
\<close>

type_synonym pystr = "nat list"

definition u :: "string \<Rightarrow> pystr" where
  "u s = map of_char s"

definition newline :: nat where
  "newline = 10"

definition colon :: nat where
  "colon = 58"

definition backslash :: nat where
  "backslash = 92"

text \<open>\<open>needle in hay\<close>: the needle occurs as a contiguous run.\<close>

fun startswith :: "'a list \<Rightarrow> 'a list \<Rightarrow> bool" where
  "startswith s [] = True"
| "startswith [] (p # ps) = False"
| "startswith (c # cs) (p # ps) = (c = p \<and> startswith cs ps)"

fun contains :: "'a list \<Rightarrow> 'a list \<Rightarrow> bool" where
  "contains needle [] = (needle = [])"
| "contains needle (c # cs) = (startswith (c # cs) needle \<or> contains needle cs)"

text \<open>\<open>s.split(sep)\<close> for a one-character separator; the result is never empty.\<close>

fun split_on :: "'a \<Rightarrow> 'a list \<Rightarrow> 'a list list" where
  "split_on sep [] = [[]]"
| "split_on sep (c # cs) =
     (if c = sep then [] # split_on sep cs
      else (case split_on sep cs of
              [] \<Rightarrow> [[c]]
            | w # ws \<Rightarrow> (c # w) # ws))"

text \<open>
  \<open>str.isspace\<close> on one code point: the code points Python's \<open>strip()\<close> removes.
\<close>

definition isspace :: "nat \<Rightarrow> bool" where
  "isspace c =
     ((9 \<le> c \<and> c \<le> 13) \<or> (28 \<le> c \<and> c \<le> 32) \<or> c = 133 \<or> c = 160 \<or> c = 5760
      \<or> (8192 \<le> c \<and> c \<le> 8202) \<or> c = 8232 \<or> c = 8233 \<or> c = 8239 \<or> c = 8287
      \<or> c = 12288)"

definition strip :: "pystr \<Rightarrow> pystr" where
  "strip s = rev (dropWhile isspace (rev (dropWhile isspace s)))"

text \<open>\<open>sep.join(xs)\<close>.\<close>

fun join :: "'a list \<Rightarrow> 'a list list \<Rightarrow> 'a list" where
  "join sep [] = []"
| "join sep [x] = x"
| "join sep (x # y # ys) = x @ sep @ join sep (y # ys)"

section \<open>Exceptions, the operating system and the trace of calls\<close>

text \<open>
  The source distinguishes two handlers: \<open>except Exception\<close> (the three creators) and
  a bare \<open>except\<close> (\<open>is_admin\<close>, \<open>is_link\<close>, \<open>get_link_target\<close>).  So an exception is
  either an instance of \<open>Exception\<close>, carrying its \<open>str(e)\<close>, or one that only a bare
  handler catches (\<open>KeyboardInterrupt\<close> and the like), or the \<open>SystemExit\<close> that
  \<open>sys.exit\<close> raises.
\<close>

datatype pyexn =
    PyException pystr
  | PyBaseException pystr
  | PySystemExit int

text \<open>What \<open>subprocess.run(..., capture_output=True, text=True)\<close> returns.\<close>

record completed_process =
  returncode :: int
  stdout :: pystr
  stderr :: pystr

text \<open>
  The operating system as the program sees it.  \<open>os.path.islink\<close>, \<open>isdir\<close> and
  \<open>isfile\<close> catch the errors of the underlying \<open>stat\<close> themselves and answer \<open>False\<close>,
  so on strings they are total; every other primitive may raise.
\<close>

record os_env =
  os_islink :: "pystr \<Rightarrow> bool"
  os_isdir :: "pystr \<Rightarrow> bool"
  os_isfile :: "pystr \<Rightarrow> bool"
  os_readlink :: "pystr \<Rightarrow> pyexn + pystr"
  subprocess_run :: "pystr list \<Rightarrow> pyexn + completed_process"
  CreateHardLinkW :: "pystr \<Rightarrow> pystr \<Rightarrow> pyexn + int"
  os_symlink :: "pystr \<Rightarrow> pystr \<Rightarrow> bool \<Rightarrow> pyexn + unit"
  IsUserAnAdmin :: "pyexn + int"
  ShellExecuteW :: "pystr \<Rightarrow> pystr \<Rightarrow> pystr \<Rightarrow> pyexn + int"
  sys_executable :: pystr
  sys_argv :: "pystr list"

text \<open>
  The kind of link asked for: the values \<open>hardlink\<close>, \<open>symlink\<close> and \<open>junction\<close> of the
  radio buttons and of the \<open>--type\<close> option.
\<close>

datatype link_type = Hardlink | Symlink | Junction

text \<open>
  The label \<open>is_link\<close> returns: the three localized strings of lines 104, 114 and 124.
\<close>

datatype link_label = SymLinkLabel | JunctionLabel | HardLinkLabel

text \<open>
  The texts shown to the user, abstracted to their template and its parameters:
  \<open>FilesOnly\<close> is the message of line 47 (hard links are for files, not directories),
  \<open>DirsOnly\<close> that of line 89 (junctions are for directories, not files),
  \<open>CreateFailed k e\<close> the messages of lines 50, 68 and 92 with \<open>str(e)\<close> appended,
  \<open>PathsRequired\<close> that of line 328, \<open>Created k target\<close> and \<open>Failed k\<close> the success
  and failure reports of \<open>create_link\<close> and \<open>main\<close>.
\<close>

datatype message =
    FilesOnly
  | DirsOnly
  | CreateFailed link_type pystr
  | PathsRequired
  | Created link_type pystr
  | Failed link_type

text \<open>
  Every call that reaches the operating system or the user is recorded, in order.
\<close>

datatype event =
    Islink pystr
  | Isdir pystr
  | Isfile pystr
  | Readlink pystr
  | Run "pystr list"
  | CallCreateHardLinkW pystr pystr
  | CallSymlink pystr pystr bool
  | CallIsUserAnAdmin
  | CallShellExecuteW pystr pystr pystr
  | ShowError message
  | ShowInfo message
  | SetStatus message
  | Print message

type_synonym 'a outcome = "(pyexn + 'a) \<times> event list"

text \<open>A bare \<open>except: return d\<close> around a body.\<close>

fun except_all :: "'a \<Rightarrow> 'a outcome \<Rightarrow> 'a outcome" where
  "except_all d (Inl e, tr) = (Inr d, tr)"
| "except_all d (Inr v, tr) = (Inr v, tr)"

section \<open>Privilege check and relaunch (lines 21 to 32)\<close>

definition is_admin :: "os_env \<Rightarrow> bool" where
  "is_admin env = (case IsUserAnAdmin env of Inl e \<Rightarrow> False | Inr v \<Rightarrow> v \<noteq> 0)"

definition run_as_admin :: "os_env \<Rightarrow> unit outcome" where
  "run_as_admin env =
     (if \<not> is_admin env then
        (let params = join (u '' '') (sys_argv env);
             tr = [CallIsUserAnAdmin,
                   CallShellExecuteW (u ''runas'') (sys_executable env) params]
         in case ShellExecuteW env (u ''runas'') (sys_executable env) params of
              Inl e \<Rightarrow> (Inl e, tr)
            | Inr r \<Rightarrow> (Inl (PySystemExit 0), tr))
      else (Inr (), [CallIsUserAnAdmin]))"

section \<open>The link creators (lines 35 to 93)\<close>

text \<open>
  \<open>messagebox.showerror\<close> is an output: it is recorded and returns.  An exception that
  is not an \<open>Exception\<close> passes the handler and leaves the function.
\<close>

definition create_hardlink :: "os_env \<Rightarrow> pystr \<Rightarrow> pystr \<Rightarrow> bool outcome" where
  "create_hardlink env source target =
     (if os_isfile env source then
        (case CreateHardLinkW env target source of
           Inr result \<Rightarrow>
             (Inr (result \<noteq> 0), [Isfile source, CallCreateHardLinkW target source])
         | Inl (PyException e) \<Rightarrow>
             (Inr False, [Isfile source, CallCreateHardLinkW target source,
                          ShowError (CreateFailed Hardlink e)])
         | Inl e \<Rightarrow> (Inl e, [Isfile source, CallCreateHardLinkW target source]))
      else (Inr False, [Isfile source, ShowError FilesOnly]))"

definition create_symlink :: "os_env \<Rightarrow> pystr \<Rightarrow> pystr \<Rightarrow> bool \<Rightarrow> bool outcome" where
  "create_symlink env source target is_directory =
     (case os_symlink env source target is_directory of
        Inr r \<Rightarrow> (Inr True, [CallSymlink source target is_directory])
      | Inl (PyException e) \<Rightarrow>
          (Inr False, [CallSymlink source target is_directory,
                       ShowError (CreateFailed Symlink e)])
      | Inl e \<Rightarrow> (Inl e, [CallSymlink source target is_directory]))"

text \<open>The command line of line 82: \<open>cmd /c mklink /J "target" "source"\<close>.\<close>

definition mklink_args :: "pystr \<Rightarrow> pystr \<Rightarrow> pystr list" where
  "mklink_args source target =
     [u ''cmd'', u ''/c'',
      u ''mklink /J '' @ [34] @ target @ [34] @ u '' '' @ [34] @ source @ [34]]"

definition create_junction :: "os_env \<Rightarrow> pystr \<Rightarrow> pystr \<Rightarrow> bool outcome" where
  "create_junction env source target =
     (if os_isdir env source then
        (case subprocess_run env (mklink_args source target) of
           Inr result \<Rightarrow>
             (Inr (returncode result = 0), [Isdir source, Run (mklink_args source target)])
         | Inl (PyException e) \<Rightarrow>
             (Inr False, [Isdir source, Run (mklink_args source target),
                          ShowError (CreateFailed Junction e)])
         | Inl e \<Rightarrow> (Inl e, [Isdir source, Run (mklink_args source target)]))
      else (Inr False, [Isdir source, ShowError DirsOnly]))"

section \<open>The classifier (lines 96 to 128)\<close>

definition reparse_marker_zh :: pystr where
  "reparse_marker_zh = [37325, 35299, 26512, 28857]"

definition reparse_query_args :: "pystr \<Rightarrow> pystr list" where
  "reparse_query_args path = [u ''fsutil'', u ''reparsepoint'', u ''query'', path]"

definition hardlink_list_args :: "pystr \<Rightarrow> pystr list" where
  "hardlink_list_args path = [u ''fsutil'', u ''hardlink'', u ''list'', path]"

text \<open>Lines 117 to 126, entered with the trace so far.\<close>

definition is_link_file_part :: "os_env \<Rightarrow> pystr \<Rightarrow> event list \<Rightarrow> link_label option outcome" where
  "is_link_file_part env path tr =
     (if os_isfile env path then
        (case subprocess_run env (hardlink_list_args path) of
           Inl e \<Rightarrow> (Inl e, tr @ [Isfile path, Run (hardlink_list_args path)])
         | Inr result \<Rightarrow>
             (if length (split_on newline (strip (stdout result))) > 2
              then (Inr (Some HardLinkLabel), tr @ [Isfile path, Run (hardlink_list_args path)])
              else (Inr None, tr @ [Isfile path, Run (hardlink_list_args path)])))
      else (Inr None, tr @ [Isfile path]))"

text \<open>The body of the \<open>try\<close>.\<close>

definition is_link_body :: "os_env \<Rightarrow> pystr \<Rightarrow> link_label option outcome" where
  "is_link_body env path =
     (if os_islink env path then (Inr (Some SymLinkLabel), [Islink path])
      else if os_isdir env path then
        (case subprocess_run env (reparse_query_args path) of
           Inl e \<Rightarrow> (Inl e, [Islink path, Isdir path, Run (reparse_query_args path)])
         | Inr result \<Rightarrow>
             (if contains reparse_marker_zh (stdout result)
                 \<or> contains (u ''Reparse'') (stdout result)
              then (Inr (Some JunctionLabel),
                    [Islink path, Isdir path, Run (reparse_query_args path)])
              else is_link_file_part env path
                     [Islink path, Isdir path, Run (reparse_query_args path)]))
      else is_link_file_part env path [Islink path, Isdir path])"

definition is_link :: "os_env \<Rightarrow> pystr \<Rightarrow> link_label option outcome" where
  "is_link env path = except_all None (is_link_body env path)"

section \<open>The target of a link (lines 131 to 158)\<close>

definition substitute_marker_zh :: pystr where
  "substitute_marker_zh = [26367, 20195, 21517, 31216]"

definition device_prefix :: pystr where
  "device_prefix = [backslash, 63, 63, backslash]"

text \<open>\<open>xs[-1]\<close>: an \<open>IndexError\<close> on the empty list.\<close>

fun py_last :: "'a list \<Rightarrow> pyexn + 'a" where
  "py_last [] = Inl (PyException (u ''list index out of range''))"
| "py_last [x] = Inr x"
| "py_last (x # y # ys) = py_last (y # ys)"

text \<open>Lines 150 to 154 on the line that matched.\<close>

definition target_of_line :: "pystr \<Rightarrow> pyexn + pystr option" where
  "target_of_line line =
     (case py_last (split_on colon line) of
        Inl e \<Rightarrow> Inl e
      | Inr field \<Rightarrow>
          (let target = strip field
           in Inr (Some (if startswith target device_prefix then drop 4 target else target))))"

text \<open>The loop of line 148: the first matching line decides.\<close>

fun scan_lines :: "pystr list \<Rightarrow> pyexn + pystr option" where
  "scan_lines [] = Inr None"
| "scan_lines (line # rest) =
     (if contains (u ''Substitute Name'') line \<or> contains substitute_marker_zh line
      then target_of_line line
      else scan_lines rest)"

definition get_link_target_body :: "os_env \<Rightarrow> pystr \<Rightarrow> pystr option outcome" where
  "get_link_target_body env path =
     (if os_islink env path then
        (case os_readlink env path of
           Inl e \<Rightarrow> (Inl e, [Islink path, Readlink path])
         | Inr t \<Rightarrow> (Inr (Some t), [Islink path, Readlink path]))
      else if os_isdir env path then
        (case subprocess_run env (reparse_query_args path) of
           Inl e \<Rightarrow> (Inl e, [Islink path, Isdir path, Run (reparse_query_args path)])
         | Inr result \<Rightarrow>
             (scan_lines (split_on newline (stdout result)),
              [Islink path, Isdir path, Run (reparse_query_args path)]))
      else (Inr None, [Islink path, Isdir path]))"

definition get_link_target :: "os_env \<Rightarrow> pystr \<Rightarrow> pystr option outcome" where
  "get_link_target env path = except_all None (get_link_target_body env path)"

section \<open>The callers: the form's button and the command line\<close>

text \<open>
  The three-way choice on the link type that \<open>LinkShellApp.create_link\<close> (lines 339 to
  345) and \<open>main\<close> (lines 470 to 485) share: for a symbolic link the caller tests
  \<open>os.path.isdir(source)\<close> and hands the answer to \<open>create_symlink\<close>.
\<close>

definition dispatch :: "os_env \<Rightarrow> link_type \<Rightarrow> pystr \<Rightarrow> pystr \<Rightarrow> bool outcome" where
  "dispatch env lt source target =
     (case lt of
        Hardlink \<Rightarrow> create_hardlink env source target
      | Symlink \<Rightarrow>
          (case create_symlink env source target (os_isdir env source) of
             (r, tr) \<Rightarrow> (r, Isdir source # tr))
      | Junction \<Rightarrow> create_junction env source target)"

text \<open>
  \<open>LinkShellApp.create_link\<close> (lines 323 to 351) on the form's source, target and link
  type.
\<close>

definition create_link :: "os_env \<Rightarrow> pystr \<Rightarrow> pystr \<Rightarrow> link_type \<Rightarrow> unit outcome" where
  "create_link env source target lt =
     (if source = [] \<or> target = [] then (Inr (), [ShowError PathsRequired])
      else if lt \<noteq> Hardlink \<and> \<not> is_admin env then
        (case run_as_admin env of (r, tr) \<Rightarrow> (r, CallIsUserAnAdmin # tr))
      else
        (let pre = (if lt \<noteq> Hardlink then [CallIsUserAnAdmin] else [])
         in case dispatch env lt source target of
              (Inl e, tr) \<Rightarrow> (Inl e, pre @ tr)
            | (Inr success, tr) \<Rightarrow>
                (Inr (), pre @ tr @
                   (if success then [SetStatus (Created lt target), ShowInfo (Created lt target)]
                    else [SetStatus (Failed lt)]))))"

text \<open>
  \<open>main\<close> with \<open>--type\<close>, \<open>--source\<close> and \<open>--target\<close> all given (lines 469 to 485).
\<close>

definition main_cli :: "os_env \<Rightarrow> link_type \<Rightarrow> pystr \<Rightarrow> pystr \<Rightarrow> unit outcome" where
  "main_cli env lt source target =
     (case dispatch env lt source target of
        (Inl e, tr) \<Rightarrow> (Inl e, tr)
      | (Inr success, tr) \<Rightarrow>
          (Inr (), tr @ [Print (if success then Created lt target else Failed lt)]))"


section \<open>Example machines\<close>

text \<open>A Windows path from its components.\<close>

definition win_path :: "string list \<Rightarrow> pystr" where
  "win_path parts = join [backslash] (map u parts)"

text \<open>
  A machine on which no path exists and the process is not elevated; \<open>fsutil\<close> and
  \<open>mklink\<close> print nothing and exit with status 1, both link primitives succeed.
\<close>

definition plain_env :: os_env where
  "plain_env =
     \<lparr> os_islink = (\<lambda>p. False),
       os_isdir = (\<lambda>p. False),
       os_isfile = (\<lambda>p. False),
       os_readlink = (\<lambda>p. Inl (PyException (u ''not a link''))),
       subprocess_run = (\<lambda>args. Inr \<lparr> returncode = 1, stdout = [], stderr = [] \<rparr>),
       CreateHardLinkW = (\<lambda>target source. Inr 1),
       os_symlink = (\<lambda>source target d. Inr ()),
       IsUserAnAdmin = Inr 0,
       ShellExecuteW = (\<lambda>verb file params. Inr 42),
       sys_executable = u ''python.exe'',
       sys_argv = [u ''link_shell.py''] \<rparr>"

definition data_shared :: pystr where
  "data_shared = win_path [''C:'', ''data'', ''shared'']"

definition shared_link :: pystr where
  "shared_link = win_path [''C:'', ''links'', ''shared_link'']"

definition report_txt :: pystr where
  "report_txt = win_path [''C:'', ''data'', ''report.txt'']"

definition report_hl :: pystr where
  "report_hl = win_path [''C:'', ''links'', ''report_hl.txt'']"

definition missing_txt :: pystr where
  "missing_txt = win_path [''C:'', ''data'', ''missing.txt'']"

text \<open>
  The lines of \<open>fsutil reparsepoint query\<close> for a junction at \<open>C:\links\shared_link\<close>
  that points to \<open>C:\data\shared\<close>: the tag, and the two names with the substitute
  name in its device form.
\<close>

definition junction_query_stdout :: pystr where
  "junction_query_stdout =
     join [newline]
       [u ''Reparse Tag Value : 0xa0000003'',
        u ''Tag value: Microsoft'',
        u ''Tag value: Name Surrogate'',
        u ''Tag value: Mount Point'',
        u ''Substitute Name:       '' @ device_prefix @ data_shared,
        u ''Print Name:            '' @ data_shared,
        []]"

definition junction_env :: os_env where
  "junction_env =
     plain_env
       \<lparr> os_isdir := (\<lambda>p. p = shared_link \<or> p = data_shared),
         subprocess_run := (\<lambda>args.
           if args = reparse_query_args shared_link
           then Inr \<lparr> returncode = 0, stdout = junction_query_stdout, stderr = [] \<rparr>
           else Inr \<lparr> returncode = 1, stdout = [], stderr = [] \<rparr>) \<rparr>"

text \<open>
  \<open>fsutil hardlink list\<close> prints the names of a file one to a line.
\<close>

definition hardlink_list_stdout :: "pystr list \<Rightarrow> pystr" where
  "hardlink_list_stdout names = concat (map (\<lambda>n. n @ [newline]) names)"

text \<open>
  \<open>C:\data\report.txt\<close> after a hard link \<open>C:\links\report_hl.txt\<close> to it was made: a
  regular file with two names.
\<close>

definition two_names_env :: os_env where
  "two_names_env =
     plain_env
       \<lparr> os_isfile := (\<lambda>p. p = report_txt \<or> p = report_hl),
         subprocess_run := (\<lambda>args.
           if args = hardlink_list_args report_txt \<or> args = hardlink_list_args report_hl
           then Inr \<lparr> returncode = 0,
                      stdout = hardlink_list_stdout
                                 [win_path [[], ''data'', ''report.txt''],
                                  win_path [[], ''links'', ''report_hl.txt'']],
                      stderr = [] \<rparr>
           else Inr \<lparr> returncode = 1, stdout = [], stderr = [] \<rparr>) \<rparr>"

text \<open>
  The tag value of a mount point (junction) as the query prints it, and the report for a
  directory whose reparse point carries another tag, that of a cloud-files placeholder.
\<close>

definition mount_point_tag :: pystr where
  "mount_point_tag = u ''0xa0000003''"

definition cloud_dir :: pystr where
  "cloud_dir = win_path [''C:'', ''Users'', ''me'', ''OneDrive'', ''Documents'']"

definition cloud_query_stdout :: pystr where
  "cloud_query_stdout =
     join [newline]
       [u ''Reparse Tag Value : 0x9000601a'',
        u ''Tag value: Microsoft'',
        u ''Tag value: Directory'',
        []]"

definition cloud_env :: os_env where
  "cloud_env =
     plain_env
       \<lparr> os_isdir := (\<lambda>p. p = cloud_dir),
         subprocess_run := (\<lambda>args.
           if args = reparse_query_args cloud_dir
           then Inr \<lparr> returncode = 0, stdout = cloud_query_stdout, stderr = [] \<rparr>
           else Inr \<lparr> returncode = 1, stdout = [], stderr = [] \<rparr>) \<rparr>"

text \<open>
  A machine without \<open>fsutil\<close> on its search path: every \<open>subprocess.run\<close> raises
  \<open>FileNotFoundError\<close>.  \<open>C:\data\shared\<close> is a directory and \<open>C:\data\report.txt\<close> a
  regular file.
\<close>

definition no_fsutil_env :: os_env where
  "no_fsutil_env =
     plain_env
       \<lparr> os_isdir := (\<lambda>p. p = data_shared),
         os_isfile := (\<lambda>p. p = report_txt),
         subprocess_run := (\<lambda>args.
           Inl (PyException (u ''[WinError 2] The system cannot find the file specified''))) \<rparr>"

text \<open>
  Two machines on which creating a link from the directory \<open>C:\data\shared\<close> fails: on
  the first for lack of privilege, on the second because the target exists already.
\<close>

definition no_privilege_env :: os_env where
  "no_privilege_env =
     plain_env
       \<lparr> os_isdir := (\<lambda>p. p = data_shared),
         subprocess_run := (\<lambda>args.
           Inr \<lparr> returncode = 1, stdout = [],
                  stderr = u ''You do not have sufficient privilege to perform this operation.'' \<rparr>),
         os_symlink := (\<lambda>source target d.
           Inl (PyException (u ''[WinError 1314] A required privilege is not held by the client''))) \<rparr>"

definition target_exists_env :: os_env where
  "target_exists_env =
     plain_env
       \<lparr> os_isdir := (\<lambda>p. p = data_shared),
         subprocess_run := (\<lambda>args.
           Inr \<lparr> returncode = 1, stdout = [],
                  stderr = u ''Cannot create a file when that file already exists.'' \<rparr>),
         os_symlink := (\<lambda>source target d.
           Inl (PyException (u ''[WinError 183] Cannot create a file when that file already exists''))) \<rparr>"

text \<open>
  \<open>C:\links\shared_link\<close> as a directory symbolic link to \<open>C:\data\shared\<close>:
  \<open>os.path.isdir\<close> follows the link, so the path is a directory as well.
\<close>

definition symlink_env :: os_env where
  "symlink_env =
     plain_env
       \<lparr> os_islink := (\<lambda>p. p = shared_link),
         os_isdir := (\<lambda>p. p = shared_link \<or> p = data_shared),
         os_readlink := (\<lambda>p. if p = shared_link then Inr data_shared
                              else Inl (PyException (u ''not a link''))) \<rparr>"

text \<open>A regular file with three names.\<close>

definition three_names_env :: os_env where
  "three_names_env =
     plain_env
       \<lparr> os_isfile := (\<lambda>p. p = report_txt),
         subprocess_run := (\<lambda>args.
           if args = hardlink_list_args report_txt
           then Inr \<lparr> returncode = 0,
                      stdout = hardlink_list_stdout
                                 [win_path [[], ''data'', ''report.txt''],
                                  win_path [[], ''links'', ''report_hl.txt''],
                                  win_path [[], ''links'', ''report_hl2.txt'']],
                      stderr = [] \<rparr>
           else Inr \<lparr> returncode = 1, stdout = [], stderr = [] \<rparr>) \<rparr>"

text \<open>An elevated process on a machine where \<open>C:\data\shared\<close> is a directory.\<close>

definition admin_env :: os_env where
  "admin_env = plain_env \<lparr> os_isdir := (\<lambda>p. p = data_shared), IsUserAnAdmin := Inr 1 \<rparr>"

text \<open>
  A process that is not elevated, started as
  \<open>python.exe link_shell.py --source "C:\My Files\a.txt"\<close>, and the argument list
  that the same words give when they are cut at every space.
\<close>

definition my_file :: pystr where
  "my_file = win_path [''C:'', ''My Files'', ''a.txt'']"

definition spaced_env :: os_env where
  "spaced_env = plain_env \<lparr> sys_argv := [u ''link_shell.py'', u ''--source'', my_file] \<rparr>"

definition cut_argv :: "pystr list" where
  "cut_argv =
     [u ''link_shell.py'', u ''--source'', win_path [''C:'', ''My''],
      win_path [''Files'', ''a.txt'']]"

text \<open>
  \<open>C:\links\shared_link\<close> as a symbolic link that the process may not read.
\<close>

definition unreadable_link_env :: os_env where
  "unreadable_link_env =
     plain_env
       \<lparr> os_islink := (\<lambda>p. p = shared_link),
         os_readlink := (\<lambda>p. Inl (PyException (u ''[WinError 5] Access is denied''))) \<rparr>"

text \<open>\<open>C:\data\report.txt\<close> as a plain regular file: one name, one line in the list.\<close>

definition one_name_env :: os_env where
  "one_name_env =
     plain_env
       \<lparr> os_isfile := (\<lambda>p. p = report_txt),
         subprocess_run := (\<lambda>args.
           if args = hardlink_list_args report_txt
           then Inr \<lparr> returncode = 0,
                      stdout = hardlink_list_stdout [win_path [[], ''data'', ''report.txt'']],
                      stderr = [] \<rparr>
           else Inr \<lparr> returncode = 1, stdout = [], stderr = [] \<rparr>) \<rparr>"

text \<open>The events that are calls of \<open>os.symlink\<close>.\<close>

fun is_symlink_call :: "event \<Rightarrow> bool" where
  "is_symlink_call (CallSymlink source target d) = True"
| "is_symlink_call ev = False"

section \<open>Auxiliary facts\<close>

lemma fst_except_all:
  "fst (except_all d x) = (case fst x of Inl e \<Rightarrow> Inr d | Inr v \<Rightarrow> Inr v)"
  by (cases "(d, x)" rule: except_all.cases) simp_all

lemma snd_except_all: "snd (except_all d x) = snd x"
  by (cases "(d, x)" rule: except_all.cases) simp_all

lemma split_on_not_empty: "split_on sep s \<noteq> []"
  by (induction s) (auto split: list.splits)

section \<open>The target of a junction\<close>

text \<open>
  C1.  The claim: for a path classified as a junction, \<open>get_link_target\<close> takes the
  substitute name out of the reparse-point report and removes the leading device prefix,
  so that for a junction made to the directory \<open>D\<close> it returns a path equivalent to \<open>D\<close>.

  On the report of a junction to \<open>C:\data\shared\<close> the path is classified as a junction,
  but the target returned is \<open>\data\shared\<close>: line 150 keeps what follows the last colon
  of the line, and that colon is the drive's.  The drive letter is lost, and so is the
  device prefix before it, which the test of line 152 therefore never sees.
\<close>

theorem get_link_target_drops_drive:
  "fst (is_link junction_env shared_link) = Inr (Some JunctionLabel)
   \<and> fst (get_link_target junction_env shared_link)
       = Inr (Some (win_path [[], ''data'', ''shared'']))
   \<and> win_path [[], ''data'', ''shared''] \<noteq> data_shared"
  by (simp add: is_link_def is_link_body_def get_link_target_def get_link_target_body_def
      junction_env_def plain_env_def junction_query_stdout_def data_shared_def
      shared_link_def win_path_def u_def newline_def colon_def backslash_def
      target_of_line_def device_prefix_def strip_def isspace_def substitute_marker_zh_def
      reparse_marker_zh_def)

section \<open>Hard links\<close>

text \<open>
  C2.  The claim: a regular file that is neither a symbolic link nor a directory is
  labelled a hard link exactly when more than one directory entry names its content,
  and gets no label when it has a single entry.

  Line 123 asks for more than two lines of the list of names.  A file with two names,
  which is what one call of \<open>create_hardlink\<close> leaves, has a list of two lines and gets
  no label; the label appears from three names on.
\<close>

theorem is_link_two_names:
  "is_link two_names_env report_hl
     = (Inr None,
        [Islink report_hl, Isdir report_hl, Isfile report_hl,
         Run (hardlink_list_args report_hl)])
   \<and> fst (is_link three_names_env report_txt) = Inr (Some HardLinkLabel)"
  by (simp add: is_link_def is_link_body_def is_link_file_part_def two_names_env_def
      three_names_env_def plain_env_def hardlink_list_stdout_def hardlink_list_args_def
      report_hl_def report_txt_def win_path_def u_def newline_def backslash_def strip_def
      isspace_def)

section \<open>Junctions\<close>

text \<open>
  C3.  The claim: a directory that is not a symbolic link is labelled a junction only
  when its reparse-point data is present and carries the mount-point tag; with another
  tag, or without a reparse point, it is not.

  The classifier does not read the tag.  The report of a directory whose reparse point
  carries the cloud-files tag contains the word \<open>Reparse\<close>, and the directory is labelled
  a junction.
\<close>

theorem is_link_other_tag_counterexample:
  "\<not> os_islink cloud_env cloud_dir \<and> os_isdir cloud_env cloud_dir
   \<and> subprocess_run cloud_env (reparse_query_args cloud_dir)
       = Inr \<lparr> returncode = 0, stdout = cloud_query_stdout, stderr = [] \<rparr>
   \<and> \<not> contains mount_point_tag cloud_query_stdout
   \<and> fst (is_link cloud_env cloud_dir) = Inr (Some JunctionLabel)"
  by (simp add: is_link_def is_link_body_def cloud_env_def plain_env_def
      cloud_query_stdout_def mount_point_tag_def reparse_marker_zh_def u_def newline_def)

text \<open>
  C3, as the code has it: a directory that is not a symbolic link, and whose
  reparse-point query returns, is labelled a junction exactly when the text of the report
  contains the word \<open>Reparse\<close> or its localized counterpart.
\<close>

theorem is_link_junction_iff:
  assumes "\<not> os_islink env path" and "os_isdir env path"
    and "subprocess_run env (reparse_query_args path) = Inr result"
  shows "fst (is_link env path) = Inr (Some JunctionLabel)
         \<longleftrightarrow> contains reparse_marker_zh (stdout result)
             \<or> contains (u ''Reparse'') (stdout result)"
  using assms
  by (auto simp add: is_link_def is_link_body_def is_link_file_part_def split: sum.splits)

theorem is_link_junction_iff_witness:
  "\<not> os_islink junction_env shared_link \<and> os_isdir junction_env shared_link
   \<and> contains (u ''Reparse'') junction_query_stdout
   \<and> fst (is_link junction_env shared_link) = Inr (Some JunctionLabel)"
proof -
  have a: "\<not> os_islink junction_env shared_link"
    by (simp add: junction_env_def plain_env_def)
  have b: "os_isdir junction_env shared_link"
    by (simp add: junction_env_def plain_env_def)
  have c: "subprocess_run junction_env (reparse_query_args shared_link)
           = Inr \<lparr> returncode = 0, stdout = junction_query_stdout, stderr = [] \<rparr>"
    by (simp add: junction_env_def plain_env_def)
  have d: "contains (u ''Reparse'') junction_query_stdout"
    by (simp add: junction_query_stdout_def u_def newline_def)
  from is_link_junction_iff [OF a b c] d a b show ?thesis by simp
qed

section \<open>No exception leaves the classifier\<close>

text \<open>
  C4.  The claim: \<open>is_link\<close> never raises; a failure while its data is queried or read
  ends in the answer \<open>None\<close> instead of an error for the caller.

  Both \<open>is_link\<close> and \<open>get_link_target\<close> return on every machine and every path,
  whatever is raised inside, exceptions outside \<open>Exception\<close> included.  When the body
  raises, and so when the reparse-point query, the list of names or the reading of the
  link raises, the answer is \<open>None\<close>.
\<close>

theorem classifier_never_raises:
  "fst (is_link env path) \<noteq> Inl e
   \<and> fst (get_link_target env path) \<noteq> Inl e
   \<and> (fst (is_link_body env path) = Inl e \<longrightarrow> fst (is_link env path) = Inr None)
   \<and> (fst (get_link_target_body env path) = Inl e
        \<longrightarrow> fst (get_link_target env path) = Inr None)
   \<and> (\<not> os_islink env path \<and> os_isdir env path
        \<and> subprocess_run env (reparse_query_args path) = Inl e
        \<longrightarrow> fst (is_link env path) = Inr None \<and> fst (get_link_target env path) = Inr None)
   \<and> (\<not> os_islink env path \<and> \<not> os_isdir env path \<and> os_isfile env path
        \<and> subprocess_run env (hardlink_list_args path) = Inl e
        \<longrightarrow> fst (is_link env path) = Inr None)
   \<and> (os_islink env path \<and> os_readlink env path = Inl e
        \<longrightarrow> fst (get_link_target env path) = Inr None)"
  by (simp add: is_link_def get_link_target_def fst_except_all is_link_body_def
      get_link_target_body_def is_link_file_part_def split: sum.splits)

theorem classifier_never_raises_witness:
  "fst (is_link_body no_fsutil_env data_shared)
     = Inl (PyException (u ''[WinError 2] The system cannot find the file specified''))
   \<and> fst (is_link no_fsutil_env data_shared) = Inr None
   \<and> fst (get_link_target no_fsutil_env data_shared) = Inr None
   \<and> fst (is_link no_fsutil_env report_txt) = Inr None
   \<and> fst (get_link_target unreadable_link_env shared_link) = Inr None"
proof -
  let ?e = "PyException (u ''[WinError 2] The system cannot find the file specified'')"
  have neq: "report_txt \<noteq> data_shared"
    by (simp add: report_txt_def data_shared_def win_path_def u_def)
  have d: "\<not> os_islink no_fsutil_env data_shared \<and> os_isdir no_fsutil_env data_shared
           \<and> subprocess_run no_fsutil_env (reparse_query_args data_shared) = Inl ?e"
    by (simp add: no_fsutil_env_def plain_env_def)
  have f: "\<not> os_islink no_fsutil_env report_txt \<and> \<not> os_isdir no_fsutil_env report_txt
           \<and> os_isfile no_fsutil_env report_txt
           \<and> subprocess_run no_fsutil_env (hardlink_list_args report_txt) = Inl ?e"
    using neq by (simp add: no_fsutil_env_def plain_env_def)
  have b: "fst (is_link_body no_fsutil_env data_shared) = Inl ?e"
    using d by (simp add: is_link_body_def)
  have g: "fst (get_link_target_body no_fsutil_env data_shared) = Inl ?e"
    using d by (simp add: get_link_target_body_def)
  have r1: "fst (is_link no_fsutil_env data_shared) = Inr None
            \<and> fst (get_link_target no_fsutil_env data_shared) = Inr None"
    using classifier_never_raises [of no_fsutil_env data_shared ?e] d b g by blast
  have r2: "fst (is_link no_fsutil_env report_txt) = Inr None"
    using classifier_never_raises [of no_fsutil_env report_txt ?e] f by blast
  have l: "os_islink unreadable_link_env shared_link
           \<and> os_readlink unreadable_link_env shared_link
               = Inl (PyException (u ''[WinError 5] Access is denied''))"
    by (simp add: unreadable_link_env_def plain_env_def)
  have r3: "fst (get_link_target unreadable_link_env shared_link) = Inr None"
    using classifier_never_raises
            [of unreadable_link_env shared_link
                "PyException (u ''[WinError 5] Access is denied'')"] l
    by blast
  from b r1 r2 r3 show ?thesis by blast
qed

section \<open>Sources of the wrong kind\<close>

text \<open>
  C5.  The claim: \<open>create_hardlink\<close> on a source that is not a regular file fails as
  "not a file" without calling the link primitive of the system, and \<open>create_junction\<close>
  on a source that is not a directory fails as "not a directory" without starting the
  command that makes the reparse point.

  In both cases the creator tests the source, shows the message that names the reason
  and returns \<open>False\<close>; these two events are all it does.
\<close>

theorem creators_reject_wrong_source:
  "(\<not> os_isfile env source
      \<longrightarrow> create_hardlink env source target
            = (Inr False, [Isfile source, ShowError FilesOnly]))
   \<and> (\<not> os_isdir env source
      \<longrightarrow> create_junction env source target
            = (Inr False, [Isdir source, ShowError DirsOnly]))"
  by (simp add: create_hardlink_def create_junction_def)

theorem creators_reject_wrong_source_witness:
  "\<not> os_isfile no_fsutil_env data_shared
   \<and> create_hardlink no_fsutil_env data_shared shared_link
       = (Inr False, [Isfile data_shared, ShowError FilesOnly])
   \<and> \<not> os_isdir no_fsutil_env report_txt
   \<and> create_junction no_fsutil_env report_txt shared_link
       = (Inr False, [Isdir report_txt, ShowError DirsOnly])"
proof -
  have neq: "data_shared \<noteq> report_txt"
    by (simp add: report_txt_def data_shared_def win_path_def u_def)
  have a: "\<not> os_isfile no_fsutil_env data_shared"
    using neq by (simp add: no_fsutil_env_def plain_env_def)
  have b: "\<not> os_isdir no_fsutil_env report_txt"
    using neq by (simp add: no_fsutil_env_def plain_env_def)
  have r1: "create_hardlink no_fsutil_env data_shared shared_link
              = (Inr False, [Isfile data_shared, ShowError FilesOnly])"
    using creators_reject_wrong_source [of no_fsutil_env data_shared shared_link] a by blast
  have r2: "create_junction no_fsutil_env report_txt shared_link
              = (Inr False, [Isdir report_txt, ShowError DirsOnly])"
    using creators_reject_wrong_source [of no_fsutil_env report_txt shared_link] b by blast
  from a b r1 r2 show ?thesis by blast
qed

section \<open>Failures for lack of privilege\<close>

text \<open>
  C6.  The claim: when \<open>create_symlink\<close> or \<open>create_junction\<close> fails because the process
  lacks the privilege, the creator reports an insufficient-privilege condition that the
  caller can tell from other kinds of failure.

  The creators have one failure value, \<open>False\<close>.  A junction refused for lack of
  privilege and one refused because the target exists give the same result and the same
  events; for a symbolic link the returned value is the same as well.
\<close>

theorem privilege_failure_counterexample:
  "create_junction no_privilege_env data_shared shared_link
     = create_junction target_exists_env data_shared shared_link
   \<and> fst (create_junction no_privilege_env data_shared shared_link) = Inr False
   \<and> fst (create_symlink no_privilege_env data_shared shared_link True) = Inr False
   \<and> fst (create_symlink target_exists_env data_shared shared_link True) = Inr False"
  by (simp add: create_junction_def create_symlink_def no_privilege_env_def
      target_exists_env_def plain_env_def)

text \<open>
  C6, as the code has it: a failure of either creator, for lack of privilege as for any
  other reason, is reported as \<open>False\<close>.  \<open>create_symlink\<close> first shows a message that
  carries the text of the exception; \<open>create_junction\<close> shows nothing when the command
  ends with a status other than zero.
\<close>

theorem creators_failure_is_false:
  "(os_symlink env source target d = Inl (PyException e)
      \<longrightarrow> create_symlink env source target d
            = (Inr False, [CallSymlink source target d, ShowError (CreateFailed Symlink e)]))
   \<and> (os_isdir env source \<and> subprocess_run env (mklink_args source target) = Inr result
        \<and> returncode result \<noteq> 0
      \<longrightarrow> create_junction env source target
            = (Inr False, [Isdir source, Run (mklink_args source target)]))"
  by (simp add: create_symlink_def create_junction_def)

theorem creators_failure_is_false_witness:
  "create_symlink no_privilege_env data_shared shared_link True
     = (Inr False,
        [CallSymlink data_shared shared_link True,
         ShowError (CreateFailed Symlink
           (u ''[WinError 1314] A required privilege is not held by the client''))])
   \<and> create_junction no_privilege_env data_shared shared_link
     = (Inr False, [Isdir data_shared, Run (mklink_args data_shared shared_link)])"
proof -
  let ?r = "\<lparr> returncode = 1, stdout = [],
              stderr = u ''You do not have sufficient privilege to perform this operation.'' \<rparr>"
  have a: "os_symlink no_privilege_env data_shared shared_link True
           = Inl (PyException (u ''[WinError 1314] A required privilege is not held by the client''))"
    by (simp add: no_privilege_env_def plain_env_def)
  have b: "os_isdir no_privilege_env data_shared
           \<and> subprocess_run no_privilege_env (mklink_args data_shared shared_link) = Inr ?r
           \<and> returncode ?r \<noteq> 0"
    by (simp add: no_privilege_env_def plain_env_def)
  from creators_failure_is_false [of no_privilege_env data_shared shared_link True _ ?r] a b
  show ?thesis by simp
qed

section \<open>The order of the tests\<close>

text \<open>
  C7.  The claim: \<open>is_link\<close> tests in a fixed order.  The symbolic-link test comes first
  and decides when it holds; the directory test with the reparse-point query is made only
  otherwise; the regular-file test with the list of names only after both; and \<open>None\<close>
  is the answer when no test succeeds.  A symbolic link is thus never labelled a junction
  or a hard link.

  The trace shows which tests were made, and the statement gives the answer and the trace
  on every path through the function.  For a symbolic link the trace holds the first
  test alone, also when the path is a directory.  Otherwise the directory test follows,
  with the reparse-point query when it holds: a query that raises ends in \<open>None\<close>, a
  report with a marker in the junction label.  Only when neither happened is the
  regular-file test made, after the tests before it: a path that is no regular file, a
  list of names that raises and a list of at most two lines give \<open>None\<close>, a longer list
  the hard-link label.  The label of a symbolic link is given exactly when the first
  test holds.
\<close>

theorem is_link_precedence:
  "(os_islink env p \<longrightarrow> is_link env p = (Inr (Some SymLinkLabel), [Islink p]))
   \<and> (\<not> os_islink env p \<and> os_isdir env p
        \<and> subprocess_run env (reparse_query_args p) = Inr r
        \<and> (contains reparse_marker_zh (stdout r) \<or> contains (u ''Reparse'') (stdout r))
      \<longrightarrow> is_link env p
            = (Inr (Some JunctionLabel), [Islink p, Isdir p, Run (reparse_query_args p)]))
   \<and> (\<not> os_islink env p \<and> os_isdir env p
        \<and> subprocess_run env (reparse_query_args p) = Inr r
        \<and> \<not> contains reparse_marker_zh (stdout r) \<and> \<not> contains (u ''Reparse'') (stdout r)
        \<and> \<not> os_isfile env p
      \<longrightarrow> is_link env p
            = (Inr None, [Islink p, Isdir p, Run (reparse_query_args p), Isfile p]))
   \<and> (\<not> os_islink env p \<and> \<not> os_isdir env p \<and> os_isfile env p
        \<and> subprocess_run env (hardlink_list_args p) = Inr h
        \<and> 2 < length (split_on newline (strip (stdout h)))
      \<longrightarrow> is_link env p
            = (Inr (Some HardLinkLabel),
               [Islink p, Isdir p, Isfile p, Run (hardlink_list_args p)]))
   \<and> (\<not> os_islink env p \<and> \<not> os_isdir env p \<and> \<not> os_isfile env p
      \<longrightarrow> is_link env p = (Inr None, [Islink p, Isdir p, Isfile p]))
   \<and> (fst (is_link env p) = Inr (Some SymLinkLabel) \<longleftrightarrow> os_islink env p)
   \<and> (\<not> os_islink env p \<and> os_isdir env p
        \<and> subprocess_run env (reparse_query_args p) = Inl e
      \<longrightarrow> is_link env p = (Inr None, [Islink p, Isdir p, Run (reparse_query_args p)]))
   \<and> (\<not> os_islink env p
        \<and> (os_isdir env p
             \<longrightarrow> subprocess_run env (reparse_query_args p) = Inr r
                 \<and> \<not> contains reparse_marker_zh (stdout r)
                 \<and> \<not> contains (u ''Reparse'') (stdout r))
        \<and> os_isfile env p
        \<and> subprocess_run env (hardlink_list_args p) = Inl e
      \<longrightarrow> is_link env p
            = (Inr None,
               [Islink p, Isdir p]
               @ (if os_isdir env p then [Run (reparse_query_args p)] else [])
               @ [Isfile p, Run (hardlink_list_args p)]))
   \<and> (\<not> os_islink env p
        \<and> (os_isdir env p
             \<longrightarrow> subprocess_run env (reparse_query_args p) = Inr r
                 \<and> \<not> contains reparse_marker_zh (stdout r)
                 \<and> \<not> contains (u ''Reparse'') (stdout r))
        \<and> os_isfile env p
        \<and> subprocess_run env (hardlink_list_args p) = Inr h
        \<and> 2 < length (split_on newline (strip (stdout h)))
      \<longrightarrow> is_link env p
            = (Inr (Some HardLinkLabel),
               [Islink p, Isdir p]
               @ (if os_isdir env p then [Run (reparse_query_args p)] else [])
               @ [Isfile p, Run (hardlink_list_args p)]))
   \<and> (\<not> os_islink env p
        \<and> (os_isdir env p
             \<longrightarrow> subprocess_run env (reparse_query_args p) = Inr r
                 \<and> \<not> contains reparse_marker_zh (stdout r)
                 \<and> \<not> contains (u ''Reparse'') (stdout r))
        \<and> os_isfile env p
        \<and> subprocess_run env (hardlink_list_args p) = Inr h
        \<and> \<not> 2 < length (split_on newline (strip (stdout h)))
      \<longrightarrow> is_link env p
            = (Inr None,
               [Islink p, Isdir p]
               @ (if os_isdir env p then [Run (reparse_query_args p)] else [])
               @ [Isfile p, Run (hardlink_list_args p)]))"
  by (auto simp add: is_link_def is_link_body_def is_link_file_part_def split: sum.splits)

theorem is_link_precedence_witness:
  "os_islink symlink_env shared_link \<and> os_isdir symlink_env shared_link
   \<and> is_link symlink_env shared_link = (Inr (Some SymLinkLabel), [Islink shared_link])
   \<and> is_link junction_env shared_link
       = (Inr (Some JunctionLabel),
          [Islink shared_link, Isdir shared_link, Run (reparse_query_args shared_link)])
   \<and> is_link plain_env missing_txt
       = (Inr None, [Islink missing_txt, Isdir missing_txt, Isfile missing_txt])
   \<and> is_link three_names_env report_txt
       = (Inr (Some HardLinkLabel),
          [Islink report_txt, Isdir report_txt, Isfile report_txt,
           Run (hardlink_list_args report_txt)])
   \<and> is_link no_privilege_env data_shared
       = (Inr None,
          [Islink data_shared, Isdir data_shared, Run (reparse_query_args data_shared),
           Isfile data_shared])
   \<and> is_link no_fsutil_env data_shared
       = (Inr None,
          [Islink data_shared, Isdir data_shared, Run (reparse_query_args data_shared)])
   \<and> is_link no_fsutil_env report_txt
       = (Inr None,
          [Islink report_txt, Isdir report_txt, Isfile report_txt,
           Run (hardlink_list_args report_txt)])
   \<and> is_link one_name_env report_txt
       = (Inr None,
          [Islink report_txt, Isdir report_txt, Isfile report_txt,
           Run (hardlink_list_args report_txt)])"
proof -
  let ?j = "\<lparr> returncode = 0, stdout = junction_query_stdout, stderr = [] \<rparr>"
  let ?h = "\<lparr> returncode = 0,
              stdout = hardlink_list_stdout
                         [win_path [[], ''data'', ''report.txt''],
                          win_path [[], ''links'', ''report_hl.txt''],
                          win_path [[], ''links'', ''report_hl2.txt'']],
              stderr = [] \<rparr>"
  let ?n = "\<lparr> returncode = 1, stdout = [],
              stderr = u ''You do not have sufficient privilege to perform this operation.'' \<rparr>"
  let ?o = "\<lparr> returncode = 0,
              stdout = hardlink_list_stdout [win_path [[], ''data'', ''report.txt'']],
              stderr = [] \<rparr>"
  let ?e = "PyException (u ''[WinError 2] The system cannot find the file specified'')"
  have neq: "report_txt \<noteq> data_shared"
    by (simp add: report_txt_def data_shared_def win_path_def u_def)
  have s: "os_islink symlink_env shared_link \<and> os_isdir symlink_env shared_link"
    by (simp add: symlink_env_def plain_env_def)
  have j: "\<not> os_islink junction_env shared_link \<and> os_isdir junction_env shared_link
           \<and> subprocess_run junction_env (reparse_query_args shared_link) = Inr ?j
           \<and> (contains reparse_marker_zh (stdout ?j) \<or> contains (u ''Reparse'') (stdout ?j))"
    by (simp add: junction_env_def plain_env_def junction_query_stdout_def u_def newline_def)
  have n: "\<not> os_islink plain_env missing_txt \<and> \<not> os_isdir plain_env missing_txt
           \<and> \<not> os_isfile plain_env missing_txt"
    by (simp add: plain_env_def)
  have h: "\<not> os_islink three_names_env report_txt \<and> \<not> os_isdir three_names_env report_txt
           \<and> os_isfile three_names_env report_txt
           \<and> subprocess_run three_names_env (hardlink_list_args report_txt) = Inr ?h
           \<and> 2 < length (split_on newline (strip (stdout ?h)))"
    by (simp add: three_names_env_def plain_env_def hardlink_list_stdout_def win_path_def u_def
        newline_def backslash_def strip_def isspace_def)
  have d: "\<not> os_islink no_privilege_env data_shared \<and> os_isdir no_privilege_env data_shared
           \<and> subprocess_run no_privilege_env (reparse_query_args data_shared) = Inr ?n
           \<and> \<not> contains reparse_marker_zh (stdout ?n) \<and> \<not> contains (u ''Reparse'') (stdout ?n)
           \<and> \<not> os_isfile no_privilege_env data_shared"
    by (simp add: no_privilege_env_def plain_env_def reparse_marker_zh_def u_def)
  have q: "\<not> os_islink no_fsutil_env data_shared \<and> os_isdir no_fsutil_env data_shared
           \<and> subprocess_run no_fsutil_env (reparse_query_args data_shared) = Inl ?e"
    by (simp add: no_fsutil_env_def plain_env_def)
  have f: "\<not> os_islink no_fsutil_env report_txt \<and> \<not> os_isdir no_fsutil_env report_txt
           \<and> os_isfile no_fsutil_env report_txt
           \<and> subprocess_run no_fsutil_env (hardlink_list_args report_txt) = Inl ?e"
    using neq by (simp add: no_fsutil_env_def plain_env_def)
  have o: "\<not> os_islink one_name_env report_txt \<and> \<not> os_isdir one_name_env report_txt
           \<and> os_isfile one_name_env report_txt
           \<and> subprocess_run one_name_env (hardlink_list_args report_txt) = Inr ?o
           \<and> \<not> 2 < length (split_on newline (strip (stdout ?o)))"
    by (simp add: one_name_env_def plain_env_def hardlink_list_stdout_def win_path_def u_def
        newline_def backslash_def strip_def isspace_def)
  have r1: "is_link symlink_env shared_link = (Inr (Some SymLinkLabel), [Islink shared_link])"
    using is_link_precedence [where env = symlink_env and p = shared_link] s by simp
  have r2: "is_link junction_env shared_link
       = (Inr (Some JunctionLabel),
          [Islink shared_link, Isdir shared_link, Run (reparse_query_args shared_link)])"
    using is_link_precedence [where env = junction_env and p = shared_link and r = ?j] j
    by blast
  have r3: "is_link plain_env missing_txt
       = (Inr None, [Islink missing_txt, Isdir missing_txt, Isfile missing_txt])"
    using is_link_precedence [where env = plain_env and p = missing_txt] n by blast
  have r4: "is_link three_names_env report_txt
       = (Inr (Some HardLinkLabel),
          [Islink report_txt, Isdir report_txt, Isfile report_txt,
           Run (hardlink_list_args report_txt)])"
    using is_link_precedence [where env = three_names_env and p = report_txt and h = ?h] h
    by blast
  have r5: "is_link no_privilege_env data_shared
       = (Inr None,
          [Islink data_shared, Isdir data_shared, Run (reparse_query_args data_shared),
           Isfile data_shared])"
    using is_link_precedence [where env = no_privilege_env and p = data_shared and r = ?n] d
    by blast
  have r6: "is_link no_fsutil_env data_shared
       = (Inr None,
          [Islink data_shared, Isdir data_shared, Run (reparse_query_args data_shared)])"
    using is_link_precedence [where env = no_fsutil_env and p = data_shared and e = ?e] q
    by blast
  have r7: "is_link no_fsutil_env report_txt
       = (Inr None,
          [Islink report_txt, Isdir report_txt]
          @ (if os_isdir no_fsutil_env report_txt
             then [Run (reparse_query_args report_txt)] else [])
          @ [Isfile report_txt, Run (hardlink_list_args report_txt)])"
    using is_link_precedence [where env = no_fsutil_env and p = report_txt and e = ?e] f
    by blast
  have r8: "is_link one_name_env report_txt
       = (Inr None,
          [Islink report_txt, Isdir report_txt]
          @ (if os_isdir one_name_env report_txt
             then [Run (reparse_query_args report_txt)] else [])
          @ [Isfile report_txt, Run (hardlink_list_args report_txt)])"
    using is_link_precedence [where env = one_name_env and p = report_txt and h = ?o] o
    by blast
  from s r1 r2 r3 r4 r5 r6 r7 r8 f o show ?thesis by simp
qed

section \<open>File or directory symbolic link\<close>

text \<open>
  C8.  The claim: the kind of symbolic link is chosen by one test, whether the source is
  a directory when the call is made: the directory form for a directory, the file form
  otherwise.

  \<open>create_symlink\<close> calls \<open>os.symlink\<close> once, with the flag it was given.  Its two
  callers, the command line and the form, give it the answer of \<open>os.path.isdir\<close> on the
  source.
\<close>


theorem symlink_subtype_from_isdir:
  "filter is_symlink_call (snd (create_symlink env source target d))
     = [CallSymlink source target d]
   \<and> filter is_symlink_call (snd (main_cli env Symlink source target))
     = [CallSymlink source target (os_isdir env source)]
   \<and> (source \<noteq> [] \<and> target \<noteq> [] \<and> is_admin env
      \<longrightarrow> filter is_symlink_call (snd (create_link env source target Symlink))
            = [CallSymlink source target (os_isdir env source)])"
  by (simp add: create_symlink_def main_cli_def create_link_def dispatch_def
      split: sum.splits pyexn.splits prod.splits)

theorem symlink_subtype_from_isdir_witness:
  "snd (create_link admin_env data_shared shared_link Symlink)
     = [CallIsUserAnAdmin, Isdir data_shared, CallSymlink data_shared shared_link True,
        SetStatus (Created Symlink shared_link), ShowInfo (Created Symlink shared_link)]
   \<and> filter is_symlink_call (snd (create_link admin_env data_shared shared_link Symlink))
     = [CallSymlink data_shared shared_link True]
   \<and> filter is_symlink_call (snd (create_link admin_env report_txt report_hl Symlink))
     = [CallSymlink report_txt report_hl False]"
proof -
  have ne: "data_shared \<noteq> [] \<and> shared_link \<noteq> [] \<and> report_txt \<noteq> [] \<and> report_hl \<noteq> []"
    by (simp add: data_shared_def shared_link_def report_txt_def report_hl_def win_path_def u_def)
  have neq: "report_txt \<noteq> data_shared"
    by (simp add: report_txt_def data_shared_def win_path_def u_def)
  have a: "is_admin admin_env" by (simp add: is_admin_def admin_env_def plain_env_def)
  have d: "os_isdir admin_env data_shared \<and> \<not> os_isdir admin_env report_txt"
    using neq by (simp add: admin_env_def plain_env_def)
  have t: "snd (create_link admin_env data_shared shared_link Symlink)
     = [CallIsUserAnAdmin, Isdir data_shared, CallSymlink data_shared shared_link True,
        SetStatus (Created Symlink shared_link), ShowInfo (Created Symlink shared_link)]"
    using ne a d
    by (simp add: create_link_def dispatch_def create_symlink_def admin_env_def plain_env_def)
  from symlink_subtype_from_isdir [of admin_env data_shared shared_link]
       symlink_subtype_from_isdir [of admin_env report_txt report_hl] ne a d t
  show ?thesis by simp
qed

section \<open>The relaunch with elevation\<close>

text \<open>
  C9.  The claim: when a symbolic link or a junction is asked for and the process is not
  elevated, it starts the same executable again with the same command-line arguments
  under a request for elevation, then exits without doing anything else; it does not try
  to make the link.

  The process does ask for the relaunch and exits with status 0 without trying the
  link.  But line 30 hands over the arguments joined by single spaces, without quotes.
  For a process started on \<open>C:\My Files\a.txt\<close> the words handed over are those of a
  different list of four arguments, in which the path is cut in two.
\<close>


theorem relaunch_joins_arguments:
  "create_link spaced_env my_file shared_link Symlink
     = (Inl (PySystemExit 0),
        [CallIsUserAnAdmin, CallIsUserAnAdmin,
         CallShellExecuteW (u ''runas'') (u ''python.exe'') (join (u '' '') cut_argv)])
   \<and> sys_argv spaced_env \<noteq> cut_argv"
  by (simp add: create_link_def run_as_admin_def is_admin_def spaced_env_def plain_env_def
      cut_argv_def my_file_def shared_link_def win_path_def u_def backslash_def)

section \<open>Symbolic links to sources that do not exist\<close>

text \<open>
  C10.  The claim: \<open>create_symlink\<close> makes no test of its own on the source; it calls
  \<open>os.symlink\<close> in every case, with the flag the caller gave, so for a source that does
  not exist and a target that can be created it succeeds, leaving a dangling link.

  The call of \<open>os.symlink\<close> is the first event on every machine, no test on the source
  is among the events, and when the call returns the creator returns \<open>True\<close>.
\<close>


theorem create_symlink_unchecked:
  "hd (snd (create_symlink env source target d)) = CallSymlink source target d
   \<and> Isfile source \<notin> set (snd (create_symlink env source target d))
   \<and> Isdir source \<notin> set (snd (create_symlink env source target d))
   \<and> Islink source \<notin> set (snd (create_symlink env source target d))
   \<and> (os_symlink env source target d = Inr ()
      \<longrightarrow> create_symlink env source target d = (Inr True, [CallSymlink source target d]))"
  by (simp add: create_symlink_def split: sum.splits pyexn.splits)

theorem create_symlink_unchecked_witness:
  "\<not> os_isfile plain_env missing_txt \<and> \<not> os_isdir plain_env missing_txt
   \<and> \<not> os_islink plain_env missing_txt
   \<and> create_symlink plain_env missing_txt report_hl False
       = (Inr True, [CallSymlink missing_txt report_hl False])"
proof -
  have a: "os_symlink plain_env missing_txt report_hl False = Inr ()"
    by (simp add: plain_env_def)
  have b: "\<not> os_isfile plain_env missing_txt \<and> \<not> os_isdir plain_env missing_txt
           \<and> \<not> os_islink plain_env missing_txt"
    by (simp add: plain_env_def)
  from create_symlink_unchecked [of plain_env missing_txt report_hl False] a b
  show ?thesis by simp
qed

end
